theory Spec2Isabelle
  imports Complex_Main
begin

section \<open>Python values seen by the encoder\<close>

text \<open>
  The module \<^verbatim>\<open>notebooks/file_utils.py\<close> saves and reloads objects as JSON.
  Its encoder dispatches on what a value is (\<^verbatim>\<open>isinstance\<close>) and on what
  it can do (\<^verbatim>\<open>hasattr\<close>), so a Python value is modelled by the facts those
  tests read.

  A \<^verbatim>\<open>datetime\<close> carries its calendar fields and, when it is aware, its
  offset from UTC in whole seconds.
\<close>

record datetime =
  year :: nat
  month :: nat
  day :: nat
  hour :: nat
  minute :: nat
  second :: nat
  microsecond :: nat
  utcoffset :: "int option"

text \<open>
  What \<^verbatim>\<open>isinstance\<close> finds for a value that is none of the types the
  standard serializer writes by itself: an instance of \<^verbatim>\<open>complex\<close> (or
  of a subclass, such as a numeric library's complex scalar), an instance of
  \<^verbatim>\<open>datetime\<close>, or an instance of any other class.
\<close>

datatype pybase = IsComplex complex | IsDatetime datetime | IsOther

text \<open>
  The keys of a \<^verbatim>\<open>dict\<close>: the kinds of key the standard serializer
  accepts and any other hashable value. Float keys, which the serializer writes as the
  float's \<^verbatim>\<open>repr\<close>, are left out of the model.
\<close>

datatype pykey = KStr string | KInt int | KBool bool | KNone | KOther

text \<open>
  A value is \<^verbatim>\<open>None\<close>, a \<^verbatim>\<open>bool\<close>, an \<^verbatim>\<open>int\<close>,
  a finite \<^verbatim>\<open>float\<close>, a \<^verbatim>\<open>str\<close>, a \<^verbatim>\<open>list\<close>,
  a \<^verbatim>\<open>tuple\<close>, a \<^verbatim>\<open>dict\<close> (its items in insertion
  order), or an object \<open>PObj b ls dc\<close>: \<open>b\<close> is what
  \<^verbatim>\<open>isinstance\<close> finds, \<open>ls\<close> is \<open>Some r\<close> when the object has
  an attribute \<^verbatim>\<open>tolist\<close> and calling it returns \<open>r\<close>, and
  \<open>dc\<close> is the same for \<^verbatim>\<open>to_dict\<close>. The two methods are taken to
  return a value; the built-in types have neither attribute.
\<close>

datatype pyval =
    PNone
  | PBool bool
  | PInt int
  | PFloat real
  | PStr string
  | PList "pyval list"
  | PTuple "pyval list"
  | PDict "(pykey \<times> pyval) list"
  | PObj pybase "pyval option" "pyval option"

text \<open>
  The exceptions the operations raise: the serializer's two \<^verbatim>\<open>TypeError\<close>s
  ("Object of type ... is not JSON serializable", raised by
  \<^verbatim>\<open>json.JSONEncoder.default\<close>, and "keys must be str, int, float, bool or
  None"), the parser's \<^verbatim>\<open>JSONDecodeError\<close>, the \<^verbatim>\<open>OSError\<close>
  of \<^verbatim>\<open>open\<close>, and whatever else an external routine raises.
\<close>

datatype pyerror =
    TypeError_not_serializable
  | TypeError_keys
  | JSONDecodeError
  | OSError
  | OtherError string

section \<open>\<^verbatim>\<open>datetime.isoformat\<close>\<close>

text \<open>
  The standard library's \<^verbatim>\<open>isoformat()\<close> with its default arguments:
  \<^verbatim>\<open>"%04d-%02d-%02dT%02d:%02d:%02d"\<close>, then \<^verbatim>\<open>".%06d"\<close> when the
  microsecond is not zero, then the offset \<^verbatim>\<open>"+HH:MM"\<close> (and
  \<^verbatim>\<open>":SS"\<close> when its seconds are not zero) of an aware value.
\<close>

fun digits :: "nat \<Rightarrow> string" where
  "digits n =
     (if n < 10 then [''0123456789'' ! n]
      else digits (n div 10) @ [''0123456789'' ! (n mod 10)])"

declare digits.simps [simp del]

definition zfill :: "nat \<Rightarrow> string \<Rightarrow> string" where
  "zfill w s = replicate (w - length s) CHR ''0'' @ s"

definition format_time :: "nat \<Rightarrow> nat \<Rightarrow> nat \<Rightarrow> nat \<Rightarrow> string" where
  "format_time hh mm ss us =
     zfill 2 (digits hh) @ '':'' @ zfill 2 (digits mm) @ '':'' @ zfill 2 (digits ss)
     @ (if us \<noteq> 0 then ''.'' @ zfill 6 (digits us) else [])"

definition format_offset :: "int option \<Rightarrow> string" where
  "format_offset off =
     (case off of
        None \<Rightarrow> []
      | Some s \<Rightarrow>
          (let a = nat \<bar>s\<bar>;
               hh = a div 3600;
               mm = (a mod 3600) div 60;
               ss = a mod 60
           in (if s < 0 then ''-'' else ''+'') @ zfill 2 (digits hh) @ '':'' @ zfill 2 (digits mm)
              @ (if ss \<noteq> 0 then '':'' @ zfill 2 (digits ss) else [])))"

definition isoformat :: "datetime \<Rightarrow> string" where
  "isoformat d =
     zfill 4 (digits (year d)) @ ''-'' @ zfill 2 (digits (month d)) @ ''-''
     @ zfill 2 (digits (day d)) @ ''T''
     @ format_time (hour d) (minute d) (second d) (microsecond d)
     @ format_offset (utcoffset d)"

section \<open>\<^verbatim>\<open>QiskitEncoder.default\<close>\<close>

text \<open>
  \<^verbatim>\<open>hasattr(obj, 'tolist')\<close> and \<^verbatim>\<open>hasattr(obj, 'to_dict')\<close> with
  the value the method returns, and the two \<^verbatim>\<open>isinstance\<close> tests with the
  value they find.
\<close>

fun tolist_attr :: "pyval \<Rightarrow> pyval option" where
  "tolist_attr (PObj b ls dc) = ls"
| "tolist_attr v = None"

fun to_dict_attr :: "pyval \<Rightarrow> pyval option" where
  "to_dict_attr (PObj b ls dc) = dc"
| "to_dict_attr v = None"

fun as_complex :: "pyval \<Rightarrow> complex option" where
  "as_complex (PObj (IsComplex z) ls dc) = Some z"
| "as_complex v = None"

fun as_datetime :: "pyval \<Rightarrow> datetime option" where
  "as_datetime (PObj (IsDatetime d) ls dc) = Some d"
| "as_datetime v = None"

text \<open>\<^verbatim>\<open>json.JSONEncoder.default\<close> raises for every value it is given.\<close>

definition JSONEncoder_default :: "pyval \<Rightarrow> pyerror + pyval" where
  "JSONEncoder_default obj = Inl TypeError_not_serializable"

text \<open>
  The four tests of \<^verbatim>\<open>default\<close> in the order of the source, each returning
  at once when it holds, and the call of the base class's method last.
\<close>

definition QiskitEncoder_default :: "pyval \<Rightarrow> pyerror + pyval" where
  "QiskitEncoder_default obj =
     (case tolist_attr obj of
        Some r \<Rightarrow> Inr r
      | None \<Rightarrow>
     (case as_complex obj of
        Some z \<Rightarrow> Inr (PList [PFloat (Re z), PFloat (Im z)])
      | None \<Rightarrow>
     (case as_datetime obj of
        Some d \<Rightarrow> Inr (PStr (isoformat d))
      | None \<Rightarrow>
     (case to_dict_attr obj of
        Some r \<Rightarrow> Inr r
      | None \<Rightarrow> JSONEncoder_default obj))))"



section \<open>The standard serializer, \<^verbatim>\<open>json.dump\<close>\<close>

text \<open>
  \<^verbatim>\<open>json.dump(obj, file, cls=QiskitEncoder)\<close> writes to the file, one after
  the other, the chunks that the encoder's generator \<^verbatim>\<open>iterencode\<close> yields.
  The text is modelled as the sequence of its JSON lexemes; how a number or a string is
  spelled is not modelled.
\<close>

datatype tok =
    LBracket | RBracket | LBrace | RBrace | Comma | Colon
  | NullLit | TrueLit | FalseLit | IntLit int | FloatLit real | StrLit string

text \<open>
  What a generator has done when it stops: the lexemes it has yielded, and the exception
  that ended it, if one did. \<open>and_then a b\<close> runs \<open>b\<close> after \<open>a\<close>, unless
  \<open>a\<close> raised.
\<close>

type_synonym emit = "tok list \<times> pyerror option"

definition yield :: "tok list \<Rightarrow> emit" where
  "yield ts = (ts, None)"

definition raise :: "pyerror \<Rightarrow> emit" where
  "raise e = ([], Some e)"

fun and_then :: "emit \<Rightarrow> emit \<Rightarrow> emit" where
  "and_then (ts, Some e) b = (ts, Some e)"
| "and_then (ts, None) (us, r) = (ts @ us, r)"

text \<open>
  The elements of a non-empty list: the separator is yielded before every element but
  the first, and before that element is encoded.
\<close>

fun iterencode_items :: "emit list \<Rightarrow> emit" where
  "iterencode_items [] = yield []"
| "iterencode_items [e] = e"
| "iterencode_items (e # es) = and_then e (and_then (yield [Comma]) (iterencode_items es))"

definition iterencode_list :: "emit list \<Rightarrow> emit" where
  "iterencode_list es =
     (if es = [] then yield [LBracket, RBracket]
      else and_then (yield [LBracket]) (and_then (iterencode_items es) (yield [RBracket])))"

text \<open>
  The key of an item is turned into a string first, and a key of another type raises
  before anything of the item is written.
\<close>

definition intstr :: "int \<Rightarrow> string" where
  "intstr i = (if i < 0 then ''-'' @ digits (nat (- i)) else digits (nat i))"

fun key_str :: "pykey \<Rightarrow> pyerror + string" where
  "key_str (KStr s) = Inr s"
| "key_str (KBool True) = Inr ''true''"
| "key_str (KBool False) = Inr ''false''"
| "key_str KNone = Inr ''null''"
| "key_str (KInt i) = Inr (intstr i)"
| "key_str KOther = Inl TypeError_keys"

fun iterencode_dict_items :: "bool \<Rightarrow> (pykey \<times> emit) list \<Rightarrow> emit" where
  "iterencode_dict_items first [] = yield []"
| "iterencode_dict_items first ((k, e) # kes) =
     (case key_str k of
        Inl err \<Rightarrow> raise err
      | Inr s \<Rightarrow>
          and_then (yield ((if first then [] else [Comma]) @ [StrLit s, Colon]))
            (and_then e (iterencode_dict_items False kes)))"

definition iterencode_dict :: "(pykey \<times> emit) list \<Rightarrow> emit" where
  "iterencode_dict kes =
     (if kes = [] then yield [LBrace, RBrace]
      else and_then (yield [LBrace]) (and_then (iterencode_dict_items True kes) (yield [RBrace])))"

text \<open>
  The measure of the encoder's recursion: an object weighs more than anything
  \<^verbatim>\<open>default\<close> makes of it.
\<close>

fun weight :: "pyval \<Rightarrow> nat" where
  "weight (PList xs) = Suc (sum_list (map weight xs))"
| "weight (PTuple xs) = Suc (sum_list (map weight xs))"
| "weight (PDict kvs) = Suc (sum_list (map (\<lambda>kv. weight (snd kv)) kvs))"
| "weight (PObj b ls dc) =
     4 + (case ls of None \<Rightarrow> 0 | Some r \<Rightarrow> weight r) + (case dc of None \<Rightarrow> 0 | Some r \<Rightarrow> weight r)"
| "weight v = 1"

text \<open>
  \<^verbatim>\<open>iterencode\<close>: the types the serializer writes by itself, and for every
  other value the encoder's \<^verbatim>\<open>default\<close>, whose result is encoded in turn.
  The generator of an element does nothing but yield its own chunks, so what each
  element's generator does is computed first and \<open>and_then\<close> drops whatever would
  come after a raise. A value is a finite tree, so the serializer's check for circular
  references never fires.
\<close>

function iterencode :: "pyval \<Rightarrow> emit" where
  "iterencode (PStr s) = yield [StrLit s]"
| "iterencode PNone = yield [NullLit]"
| "iterencode (PBool b) = yield [(if b then TrueLit else FalseLit)]"
| "iterencode (PInt i) = yield [IntLit i]"
| "iterencode (PFloat f) = yield [FloatLit f]"
| "iterencode (PList xs) = iterencode_list (map iterencode xs)"
| "iterencode (PTuple xs) = iterencode_list (map iterencode xs)"
| "iterencode (PDict kvs) = iterencode_dict (map (\<lambda>kv. (fst kv, iterencode (snd kv))) kvs)"
| "iterencode (PObj b ls dc) =
     (case QiskitEncoder_default (PObj b ls dc) of
        Inl e \<Rightarrow> raise e
      | Inr v \<Rightarrow> iterencode v)"
  by pat_completeness auto

lemma weight_default:
  "QiskitEncoder_default (PObj b ls dc) = Inr v \<Longrightarrow> weight v < weight (PObj b ls dc)"
  by (cases b; cases ls; cases dc) (auto simp: QiskitEncoder_default_def JSONEncoder_default_def)

lemma weight_mem: "x \<in> set xs \<Longrightarrow> weight x \<le> sum_list (map weight xs)"
  by (induction xs) auto

lemma weight_snd_mem:
  "kv \<in> set kvs \<Longrightarrow> weight (snd kv) \<le> sum_list (map (\<lambda>kv. weight (snd kv)) kvs)"
  by (induction kvs) auto

termination iterencode
  apply (relation "measure weight")
  apply (auto simp: weight_default less_Suc_eq_le weight_mem weight_snd_mem
      simp del: weight.simps(4))
  done

section \<open>Files\<close>

text \<open>
  The file system: the text of each file that can be opened for reading, and whether a
  path can be opened for writing. \<^verbatim>\<open>open(filename, 'w')\<close> empties the file
  or creates it; \<^verbatim>\<open>file.write\<close> appends to what has been written.
\<close>

record filesystem =
  files :: "string \<Rightarrow> tok list option"
  writable :: "string \<Rightarrow> bool"

definition open_w :: "string \<Rightarrow> filesystem \<Rightarrow> pyerror + filesystem" where
  "open_w filename fs =
     (if writable fs filename then Inr (fs\<lparr>files := (files fs)(filename \<mapsto> [])\<rparr>)
      else Inl OSError)"

definition open_r :: "string \<Rightarrow> filesystem \<Rightarrow> pyerror + tok list" where
  "open_r filename fs =
     (case files fs filename of None \<Rightarrow> Inl OSError | Some text \<Rightarrow> Inr text)"

definition file_write :: "string \<Rightarrow> tok list \<Rightarrow> filesystem \<Rightarrow> filesystem" where
  "file_write filename ts fs =
     fs\<lparr>files := (files fs)(filename \<mapsto>
        (case files fs filename of None \<Rightarrow> ts | Some old \<Rightarrow> old @ ts))\<rparr>"

text \<open>
  \<^verbatim>\<open>json.dump\<close>: every chunk the generator yields before it stops is written,
  and the exception that stopped it, if any, is raised after that.
\<close>

definition json_dump :: "pyval \<Rightarrow> string \<Rightarrow> filesystem \<Rightarrow> pyerror option \<times> filesystem" where
  "json_dump obj filename fs =
     (case iterencode obj of (ts, r) \<Rightarrow> (r, file_write filename ts fs))"

section \<open>The standard parser, \<^verbatim>\<open>json.load\<close>\<close>

text \<open>
  \<^verbatim>\<open>json.load\<close> reads the lexemes from left to right. It builds a
  \<^verbatim>\<open>list\<close> for an array and a \<^verbatim>\<open>dict\<close> for an object, whose
  keys are strings; a key that comes again replaces the value stored for it.
\<close>

fun dict_set :: "pykey \<Rightarrow> pyval \<Rightarrow> (pykey \<times> pyval) list \<Rightarrow> (pykey \<times> pyval) list" where
  "dict_set k v [] = [(k, v)]"
| "dict_set k v ((k', v') # kvs) =
     (if k' = k then (k, v) # kvs else (k', v') # dict_set k v kvs)"

text \<open>
  The containers that are open around the value being read: a list with the elements
  read so far, or a dict with the items read so far and the key whose value is due.
\<close>

datatype frame = FList "pyval list" | FDict "(pykey \<times> pyval) list" string

text \<open>
  Where the parser stands: before a value, just after an opening bracket or brace,
  after an element or an item, after a comma or a key inside an object, or after the
  whole document.
\<close>

datatype pstate =
    Begin "frame list"
  | ListOpen "frame list"
  | AfterElem "pyval list" "frame list"
  | DictOpen "frame list"
  | DictKey "(pykey \<times> pyval) list" "frame list"
  | DictColon "(pykey \<times> pyval) list" string "frame list"
  | AfterItem "(pykey \<times> pyval) list" "frame list"
  | Finished pyval

text \<open>A complete value goes to the innermost open container, or ends the document.\<close>

fun deliver :: "pyval \<Rightarrow> frame list \<Rightarrow> pstate" where
  "deliver v [] = Finished v"
| "deliver v (FList xs # stk) = AfterElem (xs @ [v]) stk"
| "deliver v (FDict kvs k # stk) = AfterItem (dict_set (KStr k) v kvs) stk"

text \<open>The lexeme that starts a value, where a value may start.\<close>

fun begin_value :: "tok \<Rightarrow> frame list \<Rightarrow> pstate option" where
  "begin_value NullLit stk = Some (deliver PNone stk)"
| "begin_value TrueLit stk = Some (deliver (PBool True) stk)"
| "begin_value FalseLit stk = Some (deliver (PBool False) stk)"
| "begin_value (IntLit i) stk = Some (deliver (PInt i) stk)"
| "begin_value (FloatLit f) stk = Some (deliver (PFloat f) stk)"
| "begin_value (StrLit s) stk = Some (deliver (PStr s) stk)"
| "begin_value LBracket stk = Some (ListOpen stk)"
| "begin_value LBrace stk = Some (DictOpen stk)"
| "begin_value t stk = None"

text \<open>One lexeme; \<open>None\<close> is the parser's \<^verbatim>\<open>JSONDecodeError\<close>.\<close>

fun step :: "pstate \<Rightarrow> tok \<Rightarrow> pstate option" where
  "step (Begin stk) t = begin_value t stk"
| "step (ListOpen stk) t =
     (if t = RBracket then Some (deliver (PList []) stk) else begin_value t (FList [] # stk))"
| "step (AfterElem xs stk) t =
     (if t = Comma then Some (Begin (FList xs # stk))
      else if t = RBracket then Some (deliver (PList xs) stk)
      else None)"
| "step (DictOpen stk) t =
     (case t of
        RBrace \<Rightarrow> Some (deliver (PDict []) stk)
      | StrLit k \<Rightarrow> Some (DictColon [] k stk)
      | _ \<Rightarrow> None)"
| "step (DictKey kvs stk) t =
     (case t of StrLit k \<Rightarrow> Some (DictColon kvs k stk) | _ \<Rightarrow> None)"
| "step (DictColon kvs k stk) t =
     (if t = Colon then Some (Begin (FDict kvs k # stk)) else None)"
| "step (AfterItem kvs stk) t =
     (if t = Comma then Some (DictKey kvs stk)
      else if t = RBrace then Some (deliver (PDict kvs) stk)
      else None)"
| "step (Finished v) t = None"

fun run :: "pstate \<Rightarrow> tok list \<Rightarrow> pstate option" where
  "run st [] = Some st"
| "run st (t # ts) = (case step st t of None \<Rightarrow> None | Some st' \<Rightarrow> run st' ts)"

definition json_load :: "tok list \<Rightarrow> pyerror + pyval" where
  "json_load text =
     (case run (Begin []) text of
        Some (Finished v) \<Rightarrow> Inr v
      | _ \<Rightarrow> Inl JSONDecodeError)"

section \<open>\<^verbatim>\<open>save_to_json\<close>, \<^verbatim>\<open>load_properties\<close>, \<^verbatim>\<open>load_result\<close>\<close>

text \<open>
  Each operation returns what the Python returns, or the exception it raises; the one
  that writes also returns the file system it leaves.
\<close>

definition save_to_json :: "pyval \<Rightarrow> string \<Rightarrow> filesystem \<Rightarrow> (pyerror + unit) \<times> filesystem" where
  "save_to_json obj filename fs =
     (case open_w filename fs of
        Inl e \<Rightarrow> (Inl e, fs)
      | Inr fs1 \<Rightarrow>
          (case json_dump obj filename fs1 of
             (None, fs2) \<Rightarrow> (Inr (), fs2)
           | (Some e, fs2) \<Rightarrow> (Inl e, fs2)))"

text \<open>
  The factories \<^verbatim>\<open>BackendProperties.from_dict\<close> and
  \<^verbatim>\<open>Result.from_dict\<close> belong to another package: the factory is the
  parameter \<open>from_dict\<close> of each loader, and what is proved holds for every factory.
\<close>

definition load_properties ::
  "(pyval \<Rightarrow> pyerror + pyval) \<Rightarrow> string \<Rightarrow> filesystem \<Rightarrow> pyerror + pyval" where
  "load_properties from_dict filename fs =
     (case open_r filename fs of
        Inl e \<Rightarrow> Inl e
      | Inr text \<Rightarrow>
          (case json_load text of
             Inl e \<Rightarrow> Inl e
           | Inr parsed \<Rightarrow> from_dict parsed))"

text \<open>
  The list comprehension \<^verbatim>\<open>[Result.from_dict(i) for i in tmp]\<close>: the elements
  in order, stopping at the first call that raises.
\<close>

fun is_list :: "pyval \<Rightarrow> bool" where
  "is_list (PList xs) = True"
| "is_list v = False"

fun comprehension :: "('a \<Rightarrow> pyerror + 'b) \<Rightarrow> 'a list \<Rightarrow> pyerror + 'b list" where
  "comprehension f [] = Inr []"
| "comprehension f (x # xs) =
     (case f x of
        Inl e \<Rightarrow> Inl e
      | Inr y \<Rightarrow> (case comprehension f xs of Inl e \<Rightarrow> Inl e | Inr ys \<Rightarrow> Inr (y # ys)))"

definition load_result ::
  "(pyval \<Rightarrow> pyerror + pyval) \<Rightarrow> string \<Rightarrow> filesystem \<Rightarrow> pyerror + pyval" where
  "load_result from_dict filename fs =
     (case open_r filename fs of
        Inl e \<Rightarrow> Inl e
      | Inr text \<Rightarrow>
          (case json_load text of
             Inl e \<Rightarrow> Inl e
           | Inr tmp \<Rightarrow>
               (case tmp of
                  PList xs \<Rightarrow>
                    (case comprehension from_dict xs of
                       Inl e \<Rightarrow> Inl e
                     | Inr rs \<Rightarrow> Inr (PList rs))
                | _ \<Rightarrow> from_dict tmp)))"

section \<open>What a saved file holds\<close>



text \<open>
  A value contains an unsupported value when the encoder's traversal of it reaches an
  object for which \<^verbatim>\<open>QiskitEncoder.default\<close> raises.
\<close>

function contains_unsupported :: "pyval \<Rightarrow> bool" where
  "contains_unsupported (PList xs) = list_ex contains_unsupported xs"
| "contains_unsupported (PTuple xs) = list_ex contains_unsupported xs"
| "contains_unsupported (PDict kvs) = list_ex (\<lambda>kv. contains_unsupported (snd kv)) kvs"
| "contains_unsupported (PObj b ls dc) =
     (case QiskitEncoder_default (PObj b ls dc) of
        Inl e \<Rightarrow> True
      | Inr v \<Rightarrow> contains_unsupported v)"
| "contains_unsupported PNone = False"
| "contains_unsupported (PBool b) = False"
| "contains_unsupported (PInt i) = False"
| "contains_unsupported (PFloat f) = False"
| "contains_unsupported (PStr s) = False"
  by pat_completeness auto
termination
  apply (relation "measure weight")
  apply (auto simp: weight_default less_Suc_eq_le weight_mem weight_snd_mem
      simp del: weight.simps(4))
  done

text \<open>The two errors of the serializer.\<close>

definition encoding_error :: "pyerror \<Rightarrow> bool" where
  "encoding_error e = (e = TypeError_not_serializable \<or> e = TypeError_keys)"

text \<open>
  Nesting: what a lexeme adds to the number of open containers, the sum over a text, and
  the number of containers open in a state of the parser.
\<close>

fun delta :: "tok \<Rightarrow> int" where
  "delta LBracket = 1"
| "delta LBrace = 1"
| "delta RBracket = - 1"
| "delta RBrace = - 1"
| "delta t = 0"

definition depth :: "tok list \<Rightarrow> int" where
  "depth ts = sum_list (map delta ts)"

fun height :: "pstate \<Rightarrow> int" where
  "height (Begin stk) = int (length stk)"
| "height (ListOpen stk) = int (length stk) + 1"
| "height (AfterElem xs stk) = int (length stk) + 1"
| "height (DictOpen stk) = int (length stk) + 1"
| "height (DictKey kvs stk) = int (length stk) + 1"
| "height (DictColon kvs k stk) = int (length stk) + 1"
| "height (AfterItem kvs stk) = int (length stk) + 1"
| "height (Finished v) = 0"

text \<open>
  Properties of what a generator has done. It raised; it raised nothing but one of the
  serializer's two errors. Reading its text from the left, starting with \<open>d\<close>
  containers open, the number of open containers never falls below zero, or stays above
  zero after every lexeme. Its text never closes a container it did not open; it is a
  whole value (not empty, every container closed) if the generator did not raise, and
  has a container open after every lexeme if it did.
\<close>

definition fails :: "emit \<Rightarrow> bool" where
  "fails em = (snd em \<noteq> None)"

definition raises_encoding_error :: "emit \<Rightarrow> bool" where
  "raises_encoding_error em = (case snd em of None \<Rightarrow> True | Some e \<Rightarrow> encoding_error e)"

fun never_below :: "int \<Rightarrow> tok list \<Rightarrow> bool" where
  "never_below d [] = True"
| "never_below d (t # ts) = (0 \<le> d + delta t \<and> never_below (d + delta t) ts)"

fun stays_open :: "int \<Rightarrow> tok list \<Rightarrow> bool" where
  "stays_open d [] = True"
| "stays_open d (t # ts) = (0 < d + delta t \<and> stays_open (d + delta t) ts)"

definition open_or_closed :: "emit \<Rightarrow> bool" where
  "open_or_closed em =
     (never_below 0 (fst em) \<and> (case snd em of None \<Rightarrow> depth (fst em) = 0 | Some e \<Rightarrow> True))"

definition whole_or_cut :: "emit \<Rightarrow> bool" where
  "whole_or_cut em =
     (never_below 0 (fst em)
      \<and> (case snd em of
            None \<Rightarrow> fst em \<noteq> [] \<and> depth (fst em) = 0
          | Some e \<Rightarrow> stays_open 0 (fst em)))"

section \<open>The loaders and the file system\<close>

lemma comprehension_all2:
  "list_all2 (\<lambda>x r. f x = Inr r) xs rs \<Longrightarrow> comprehension f xs = Inr rs"
  by (induction xs rs rule: list_all2_induct) auto


lemma open_r_Some: "files fs filename = Some text \<Longrightarrow> open_r filename fs = Inr text"
  by (simp add: open_r_def)

lemma not_list_case:
  "\<not> is_list tmp \<Longrightarrow> (case tmp of PList xs \<Rightarrow> c xs | _ \<Rightarrow> d) = d"
  by (cases tmp) simp_all

lemma save_to_json_writable:
  "writable fs filename \<Longrightarrow>
   save_to_json obj filename fs =
     ((case snd (iterencode obj) of None \<Rightarrow> Inr () | Some e \<Rightarrow> Inl e),
      fs\<lparr>files := (files fs)(filename \<mapsto> fst (iterencode obj))\<rparr>)"
  by (cases "iterencode obj")
     (auto simp: save_to_json_def open_w_def json_dump_def file_write_def split: option.splits)

section \<open>The parser closes what it opened\<close>

lemma depth_simps [simp]:
  "depth [] = 0" "depth (t # ts) = delta t + depth ts" "depth (ts @ us) = depth ts + depth us"
  by (simp_all add: depth_def)

lemma height_deliver [simp]: "height (deliver v stk) = int (length stk)"
  by (cases "(v, stk)" rule: deliver.cases) simp_all

lemma begin_value_height:
  "begin_value t stk = Some st \<Longrightarrow> height st = int (length stk) + delta t"
  by (cases "(t, stk)" rule: begin_value.cases) auto

lemma step_height: "step st t = Some st' \<Longrightarrow> height st' = height st + delta t"
  by (cases "(st, t)" rule: step.cases)
     (auto dest: begin_value_height split: if_splits tok.splits)

lemma run_height: "run st ts = Some st' \<Longrightarrow> height st' = height st + depth ts"
proof (induction ts arbitrary: st)
  case Nil
  then show ?case by simp
next
  case (Cons t ts)
  then show ?case
    by (auto split: option.splits dest!: step_height)
qed

lemma json_load_balanced: "json_load ts = Inr v \<Longrightarrow> ts \<noteq> [] \<and> depth ts = 0"
proof -
  assume a: "json_load ts = Inr v"
  then have r: "run (Begin []) ts = Some (Finished v)"
    by (auto simp: json_load_def split: option.splits pstate.splits)
  from run_height [OF r] have "depth ts = 0" by simp
  moreover from r have "ts \<noteq> []" by auto
  ultimately show ?thesis by simp
qed


section \<open>The serializer stops with a container open\<close>

lemma never_below_append:
  "never_below d (ts @ us) = (never_below d ts \<and> never_below (d + depth ts) us)"
  by (induction ts arbitrary: d) (auto simp: add.assoc)

lemma never_below_mono: "never_below d ts \<Longrightarrow> d \<le> d' \<Longrightarrow> never_below d' ts"
proof (induction ts arbitrary: d d')
  case Nil
  then show ?case by simp
next
  case (Cons t ts)
  from Cons.prems have "never_below (d + delta t) ts" and "d + delta t \<le> d' + delta t"
    by simp_all
  then have "never_below (d' + delta t) ts" by (rule Cons.IH)
  with Cons.prems show ?case by simp
qed

lemma never_below_depth: "never_below d ts \<Longrightarrow> 0 \<le> d \<Longrightarrow> 0 \<le> d + depth ts"
  by (induction ts arbitrary: d) (auto simp: add.assoc [symmetric])

lemma stays_open_above: "never_below d ts \<Longrightarrow> stays_open (d + 1) ts"
proof (induction ts arbitrary: d)
  case Nil
  then show ?case by simp
next
  case (Cons t ts)
  then have "stays_open (d + delta t + 1) ts" by simp
  with Cons.prems show ?case by (simp add: add.commute add.left_commute)
qed

lemma stays_open_take:
  "stays_open d ts \<Longrightarrow> take n ts \<noteq> [] \<Longrightarrow> 0 < d + depth (take n ts)"
proof (induction ts arbitrary: d n)
  case Nil
  then show ?case by simp
next
  case (Cons t ts)
  from Cons.prems(2) obtain m where n: "n = Suc m" by (cases n) auto
  show ?case
  proof (cases "take m ts = []")
    case True
    then have "depth (take m ts) = 0" by (simp del: take_eq_Nil)
    with Cons.prems n show ?thesis by (simp del: take_eq_Nil)
  next
    case False
    with Cons.prems have "0 < (d + delta t) + depth (take m ts)"
      by (intro Cons.IH) simp_all
    with n show ?thesis by (simp add: add.assoc)
  qed
qed

lemma whole_open: "whole_or_cut em \<Longrightarrow> open_or_closed em"
  by (auto simp: whole_or_cut_def open_or_closed_def split: option.splits)

lemma and_then_fst_snd:
  "and_then a b = (if snd a = None then (fst a @ fst b, snd b) else a)"
  by (cases a; cases b) auto

lemma open_and_then:
  "open_or_closed a \<Longrightarrow> open_or_closed b \<Longrightarrow> open_or_closed (and_then a b)"
  by (auto simp: and_then_fst_snd open_or_closed_def never_below_append split: option.splits)

lemma open_yield: "open_or_closed (yield ts) = (never_below 0 ts \<and> depth ts = 0)"
  by (simp add: open_or_closed_def yield_def)

lemma open_items:
  "list_all whole_or_cut es \<Longrightarrow> open_or_closed (iterencode_items es)"
  by (induction es rule: iterencode_items.induct)
     (auto simp: open_yield whole_open intro!: open_and_then)

lemma whole_bracketed:
  assumes "open_or_closed em" and "delta l = 1" and "delta r = - 1"
  shows "whole_or_cut (and_then (yield [l]) (and_then em (yield [r])))"
proof (cases "snd em")
  case None
  with assms show ?thesis
    by (auto simp: and_then_fst_snd yield_def whole_or_cut_def open_or_closed_def
        never_below_append intro: never_below_mono)
next
  case (Some e)
  from assms(1) have "stays_open (0 + 1) (fst em)"
    by (intro stays_open_above) (simp add: open_or_closed_def)
  with Some assms show ?thesis
    by (auto simp: and_then_fst_snd yield_def whole_or_cut_def open_or_closed_def
        intro: never_below_mono)
qed

lemma whole_list:
  assumes "list_all whole_or_cut es"
  shows "whole_or_cut (iterencode_list es)"
proof (cases "es = []")
  case True
  then show ?thesis by (simp add: iterencode_list_def yield_def whole_or_cut_def)
next
  case False
  with whole_bracketed [OF open_items [OF assms], of LBracket RBracket]
  show ?thesis by (simp add: iterencode_list_def)
qed

lemma open_dict_items:
  "list_all (\<lambda>ke. whole_or_cut (snd ke)) kes \<Longrightarrow> open_or_closed (iterencode_dict_items first kes)"
proof (induction first kes rule: iterencode_dict_items.induct)
  case (1 first)
  then show ?case by (simp add: open_yield)
next
  case (2 first k e kes)
  show ?case
  proof (cases "key_str k")
    case (Inl err)
    then show ?thesis by (simp add: raise_def open_or_closed_def)
  next
    case (Inr s)
    with 2 show ?thesis
      by (auto simp: open_yield whole_open intro!: open_and_then)
  qed
qed

lemma whole_dict:
  assumes "list_all (\<lambda>ke. whole_or_cut (snd ke)) kes"
  shows "whole_or_cut (iterencode_dict kes)"
proof (cases "kes = []")
  case True
  then show ?thesis by (simp add: iterencode_dict_def yield_def whole_or_cut_def)
next
  case False
  with whole_bracketed [OF open_dict_items [OF assms, of True], of LBrace RBrace]
  show ?thesis by (simp add: iterencode_dict_def)
qed

lemma whole_iterencode: "whole_or_cut (iterencode v)"
proof (induction v rule: iterencode.induct)
  case (6 xs)
  then show ?case by (auto intro!: whole_list simp: list_all_iff)
next
  case (7 xs)
  then show ?case by (auto intro!: whole_list simp: list_all_iff)
next
  case (8 kvs)
  then show ?case by (auto intro!: whole_dict simp: list_all_iff)
next
  case (9 b ls dc)
  then show ?case
    by (auto simp: raise_def whole_or_cut_def split: sum.splits)
qed (simp_all add: whole_or_cut_def yield_def)

lemma failed_not_json:
  assumes "snd (iterencode v) = Some e"
  shows "json_load (take n (fst (iterencode v))) = Inl JSONDecodeError"
proof (cases "json_load (take n (fst (iterencode v)))")
  case (Inl err)
  then show ?thesis
    by (auto simp: json_load_def split: option.splits pstate.splits)
next
  case (Inr j)
  from whole_iterencode [of v] assms have "stays_open 0 (fst (iterencode v))"
    by (simp add: whole_or_cut_def)
  with json_load_balanced [OF Inr] stays_open_take [of 0 "fst (iterencode v)" n]
  show ?thesis by simp
qed

lemma fails_and_then: "fails (and_then a b) = (fails a \<or> fails b)"
  by (auto simp: and_then_fst_snd fails_def)

lemma fails_yield [simp]: "\<not> fails (yield ts)"
  by (simp add: fails_def yield_def)

lemma fails_raise [simp]: "fails (raise e)"
  by (simp add: fails_def raise_def)

lemma items_fail: "list_ex fails es \<Longrightarrow> fails (iterencode_items es)"
  by (induction es rule: iterencode_items.induct) (auto simp: fails_and_then)

lemma list_fail: "list_ex fails es \<Longrightarrow> fails (iterencode_list es)"
  using items_fail [of es]
  by (auto simp: iterencode_list_def fails_and_then)

lemma dict_items_fail:
  "list_ex (\<lambda>ke. fails (snd ke)) kes \<Longrightarrow> fails (iterencode_dict_items first kes)"
  by (induction first kes rule: iterencode_dict_items.induct)
     (auto simp: fails_and_then split: sum.splits)

lemma dict_fail: "list_ex (\<lambda>ke. fails (snd ke)) kes \<Longrightarrow> fails (iterencode_dict kes)"
  using dict_items_fail [of kes True]
  by (auto simp: iterencode_dict_def fails_and_then)

lemma unsupported_fails: "contains_unsupported v \<Longrightarrow> fails (iterencode v)"
proof (induction v rule: iterencode.induct)
  case (6 xs)
  then have "list_ex fails (map iterencode xs)"
    by (simp add: list_ex_iff) blast
  then show ?case by (simp add: list_fail)
next
  case (7 xs)
  then have "list_ex fails (map iterencode xs)"
    by (simp add: list_ex_iff) blast
  then show ?case by (simp add: list_fail)
next
  case (8 kvs)
  then have "list_ex (\<lambda>ke. fails (snd ke)) (map (\<lambda>kv. (fst kv, iterencode (snd kv))) kvs)"
    by (simp add: list_ex_iff) blast
  then show ?case by (simp add: dict_fail)
next
  case (9 b ls dc)
  then show ?case by (auto split: sum.splits)
qed simp_all

lemma ree_and_then:
  "raises_encoding_error a \<Longrightarrow> raises_encoding_error b \<Longrightarrow> raises_encoding_error (and_then a b)"
  by (auto simp: and_then_fst_snd raises_encoding_error_def split: option.splits)

lemma ree_yield [simp]: "raises_encoding_error (yield ts)"
  by (simp add: raises_encoding_error_def yield_def)

lemma ree_items: "list_all raises_encoding_error es \<Longrightarrow> raises_encoding_error (iterencode_items es)"
  by (induction es rule: iterencode_items.induct) (auto intro!: ree_and_then)

lemma key_str_error: "key_str k = Inl err \<Longrightarrow> err = TypeError_keys"
  by (cases k rule: key_str.cases) simp_all

lemma ree_raise: "raises_encoding_error (raise e) = encoding_error e"
  by (simp add: raises_encoding_error_def raise_def)

lemma ree_dict_items:
  "list_all (\<lambda>ke. raises_encoding_error (snd ke)) kes \<Longrightarrow>
   raises_encoding_error (iterencode_dict_items first kes)"
proof (induction first kes rule: iterencode_dict_items.induct)
  case (1 first)
  then show ?case by simp
next
  case (2 first k e kes)
  show ?case
  proof (cases "key_str k")
    case (Inl err)
    then show ?thesis
      by (simp add: ree_raise encoding_error_def key_str_error)
  next
    case (Inr s)
    with 2 show ?thesis by (auto intro!: ree_and_then)
  qed
qed

lemma ree_iterencode: "raises_encoding_error (iterencode v)"
proof (induction v rule: iterencode.induct)
  case (6 xs)
  then show ?case by (auto simp: iterencode_list_def list_all_iff intro!: ree_and_then ree_items)
next
  case (7 xs)
  then show ?case by (auto simp: iterencode_list_def list_all_iff intro!: ree_and_then ree_items)
next
  case (8 kvs)
  then show ?case
    by (auto simp: iterencode_dict_def list_all_iff intro!: ree_and_then ree_dict_items)
next
  case (9 b ls dc)
  then show ?case
    by (cases b; cases ls; cases dc)
       (auto simp: ree_raise encoding_error_def
          QiskitEncoder_default_def JSONEncoder_default_def)
qed simp_all


section \<open>The parser reads back what the serializer wrote\<close>

lemma run_append:
  "run st (ts @ us) = (case run st ts of None \<Rightarrow> None | Some st' \<Rightarrow> run st' us)"
  by (induction ts arbitrary: st) (auto split: option.splits)

















section \<open>The encoder's fallback\<close>

text \<open>
  C1. \<^verbatim>\<open>QiskitEncoder.default\<close> tries its tests in the order to-sequence
  capability, complex number, timestamp, to-mapping capability. A value with the
  attribute \<^verbatim>\<open>tolist\<close> is answered by what \<^verbatim>\<open>tolist()\<close> returns,
  whatever else it is or has; a complex number without it by the list of its two parts,
  also when it has \<^verbatim>\<open>to_dict\<close>; a timestamp without it by its ISO string,
  also when it has \<^verbatim>\<open>to_dict\<close>; and \<^verbatim>\<open>to_dict()\<close> is used
  only for a value that is none of these. In particular a value with both capabilities
  is answered, and then written, by its sequence and never by its mapping.
\<close>

theorem default_priority_order:
  "QiskitEncoder_default (PObj b (Some s) dc) = Inr s
   \<and> QiskitEncoder_default (PObj (IsComplex z) None dc)
       = Inr (PList [PFloat (Re z), PFloat (Im z)])
   \<and> QiskitEncoder_default (PObj (IsDatetime d) None dc) = Inr (PStr (isoformat d))
   \<and> QiskitEncoder_default (PObj IsOther None (Some m)) = Inr m
   \<and> QiskitEncoder_default (PObj b (Some s) (Some m)) = Inr s
   \<and> iterencode (PObj b (Some s) (Some m)) = iterencode s"
  by (simp add: QiskitEncoder_default_def)


text \<open>
  C5. A complex number that has no \<^verbatim>\<open>tolist\<close> is converted to the list of
  its real and its imaginary part, and written as a two-element array; \<open>3+4j\<close>
  becomes \<open>[3, 4]\<close>.
\<close>

theorem complex_encoding:
  "QiskitEncoder_default (PObj (IsComplex z) None dc)
     = Inr (PList [PFloat (Re z), PFloat (Im z)])
   \<and> QiskitEncoder_default (PObj (IsComplex (Complex 3 4)) None None)
       = Inr (PList [PFloat 3, PFloat 4])
   \<and> iterencode (PObj (IsComplex z) None dc)
       = ([LBracket, FloatLit (Re z), Comma, FloatLit (Im z), RBracket], None)"
  by (simp add: QiskitEncoder_default_def iterencode_list_def yield_def)

text \<open>
  C6. A timestamp that has no \<^verbatim>\<open>tolist\<close> (it cannot be a complex number
  as well) is converted to the string \<^verbatim>\<open>isoformat()\<close> returns; midnight of
  1 January 2024 becomes \<^verbatim>\<open>"2024-01-01T00:00:00"\<close>, and that string is what
  is written.
\<close>

theorem datetime_encoding:
  "QiskitEncoder_default (PObj (IsDatetime d) None dc) = Inr (PStr (isoformat d))
   \<and> isoformat \<lparr>year = 2024, month = 1, day = 1, hour = 0, minute = 0, second = 0,
        microsecond = 0, utcoffset = None\<rparr> = ''2024-01-01T00:00:00''
   \<and> iterencode (PObj (IsDatetime \<lparr>year = 2024, month = 1, day = 1, hour = 0, minute = 0,
        second = 0, microsecond = 0, utcoffset = None\<rparr>) None None)
       = ([StrLit ''2024-01-01T00:00:00''], None)"
  by (simp add: QiskitEncoder_default_def yield_def isoformat_def format_time_def
        format_offset_def zfill_def digits.simps)


section \<open>Loading\<close>

text \<open>
  C2. When the file's text parses to a list of \<open>N\<close> elements and the factory
  reconstructs each of them, \<^verbatim>\<open>load_result\<close> returns the list of the
  \<open>N\<close> reconstructed objects, the object at each position made from the element at
  that position. When the text parses to anything that is not a list,
  \<^verbatim>\<open>load_result\<close> returns what the factory returns for the parsed value
  itself, not a list holding it.
\<close>

theorem load_result_shape:
  "files fs filename = Some text \<Longrightarrow>
   (json_load text = Inr (PList xs) \<longrightarrow> list_all2 (\<lambda>x r. from_dict x = Inr r) xs rs \<longrightarrow>
      load_result from_dict filename fs = Inr (PList rs) \<and> length rs = length xs)
   \<and> (json_load text = Inr tmp \<longrightarrow> \<not> is_list tmp \<longrightarrow>
      load_result from_dict filename fs = from_dict tmp)"
proof (intro conjI impI)
  assume f: "files fs filename = Some text"
  { assume p: "json_load text = Inr (PList xs)"
      and a: "list_all2 (\<lambda>x r. from_dict x = Inr r) xs rs"
    from f p comprehension_all2 [OF a]
    show "load_result from_dict filename fs = Inr (PList rs)"
      by (simp add: load_result_def open_r_Some)
    from a show "length rs = length xs"
      by (simp add: list_all2_lengthD)
  }
  { assume p: "json_load text = Inr tmp" and n: "\<not> is_list tmp"
    with f show "load_result from_dict filename fs = from_dict tmp"
      by (simp add: load_result_def open_r_Some not_list_case)
  }
qed

theorem load_result_shape_witness:
  "files \<lparr>files = (\<lambda>f. if f = ''results.json''
        then Some [LBracket, LBrace, StrLit ''job_id'', Colon, IntLit 1, RBrace, Comma,
                   LBrace, StrLit ''job_id'', Colon, IntLit 2, RBrace, RBracket]
        else None),
      writable = (\<lambda>f. True)\<rparr> ''results.json''
     = Some [LBracket, LBrace, StrLit ''job_id'', Colon, IntLit 1, RBrace, Comma,
      LBrace, StrLit ''job_id'', Colon, IntLit 2, RBrace, RBracket]
   \<and> json_load [LBracket, LBrace, StrLit ''job_id'', Colon, IntLit 1, RBrace, Comma,
      LBrace, StrLit ''job_id'', Colon, IntLit 2, RBrace, RBracket]
     = Inr (PList [PDict [(KStr ''job_id'', PInt 1)], PDict [(KStr ''job_id'', PInt 2)]])
   \<and> list_all2 (\<lambda>x r. (\<lambda>v. Inr (PObj IsOther None (Some v))) x = Inr r)
        [PDict [(KStr ''job_id'', PInt 1)], PDict [(KStr ''job_id'', PInt 2)]]
        [PObj IsOther None (Some (PDict [(KStr ''job_id'', PInt 1)])),
         PObj IsOther None (Some (PDict [(KStr ''job_id'', PInt 2)]))]
   \<and> load_result (\<lambda>v. Inr (PObj IsOther None (Some v))) ''results.json''
        \<lparr>files = (\<lambda>f. if f = ''results.json''
        then Some [LBracket, LBrace, StrLit ''job_id'', Colon, IntLit 1, RBrace, Comma,
                   LBrace, StrLit ''job_id'', Colon, IntLit 2, RBrace, RBracket]
        else None),
      writable = (\<lambda>f. True)\<rparr>
     = Inr (PList [PObj IsOther None (Some (PDict [(KStr ''job_id'', PInt 1)])),
                   PObj IsOther None (Some (PDict [(KStr ''job_id'', PInt 2)]))])
   \<and> files \<lparr>files = (\<lambda>f. if f = ''result.json''
        then Some [LBrace, StrLit ''job_id'', Colon, IntLit 1, RBrace] else None),
      writable = (\<lambda>f. True)\<rparr> ''result.json''
     = Some [LBrace, StrLit ''job_id'', Colon, IntLit 1, RBrace]
   \<and> json_load [LBrace, StrLit ''job_id'', Colon, IntLit 1, RBrace] = Inr (PDict [(KStr ''job_id'', PInt 1)])
   \<and> \<not> is_list (PDict [(KStr ''job_id'', PInt 1)])
   \<and> load_result (\<lambda>v. Inr (PObj IsOther None (Some v))) ''result.json''
        \<lparr>files = (\<lambda>f. if f = ''result.json''
        then Some [LBrace, StrLit ''job_id'', Colon, IntLit 1, RBrace] else None),
      writable = (\<lambda>f. True)\<rparr>
     = Inr (PObj IsOther None (Some (PDict [(KStr ''job_id'', PInt 1)])))"
  using load_result_shape [of
      "\<lparr>files = (\<lambda>f. if f = ''results.json''
        then Some [LBracket, LBrace, StrLit ''job_id'', Colon, IntLit 1, RBrace, Comma,
                   LBrace, StrLit ''job_id'', Colon, IntLit 2, RBrace, RBracket]
        else None),
      writable = (\<lambda>f. True)\<rparr>"
      "''results.json''"
      "[LBracket, LBrace, StrLit ''job_id'', Colon, IntLit 1, RBrace, Comma,
      LBrace, StrLit ''job_id'', Colon, IntLit 2, RBrace, RBracket]"
      "[PDict [(KStr ''job_id'', PInt 1)], PDict [(KStr ''job_id'', PInt 2)]]"
      "(\<lambda>v. Inr (PObj IsOther None (Some v)))"
      "[PObj IsOther None (Some (PDict [(KStr ''job_id'', PInt 1)])),
        PObj IsOther None (Some (PDict [(KStr ''job_id'', PInt 2)]))]"]
    load_result_shape [of
      "\<lparr>files = (\<lambda>f. if f = ''result.json''
        then Some [LBrace, StrLit ''job_id'', Colon, IntLit 1, RBrace] else None),
      writable = (\<lambda>f. True)\<rparr>"
      "''result.json''"
      "[LBrace, StrLit ''job_id'', Colon, IntLit 1, RBrace]" _
      "(\<lambda>v. Inr (PObj IsOther None (Some v)))" _
      "PDict [(KStr ''job_id'', PInt 1)]"]
  by (simp add: json_load_def)

text \<open>
  C8. \<^verbatim>\<open>load_properties\<close> gives the value parsed from the file's text to
  the factory as it is and returns what the factory returns, a raised error included,
  with nothing done to either. When the text does not parse, it raises the parser's
  error, and when the file cannot be opened, the error of \<^verbatim>\<open>open\<close>.
\<close>

theorem load_properties_passes_through:
  "(files fs filename = Some text \<longrightarrow> json_load text = Inr parsed \<longrightarrow>
      load_properties from_dict filename fs = from_dict parsed)
   \<and> (files fs filename = Some text \<longrightarrow> json_load text = Inl e \<longrightarrow>
      load_properties from_dict filename fs = Inl e)
   \<and> (files fs filename = None \<longrightarrow> load_properties from_dict filename fs = Inl OSError)"
  by (simp add: load_properties_def open_r_def)

theorem load_properties_passes_through_witness:
  "files \<lparr>files = (\<lambda>f. if f = ''props.json''
        then Some [LBrace, StrLit ''backend_name'', Colon, StrLit ''ibmq'', RBrace]
        else None),
      writable = (\<lambda>f. True)\<rparr> ''props.json''
     = Some [LBrace, StrLit ''backend_name'', Colon, StrLit ''ibmq'', RBrace]
   \<and> json_load [LBrace, StrLit ''backend_name'', Colon, StrLit ''ibmq'', RBrace]
     = Inr (PDict [(KStr ''backend_name'', PStr ''ibmq'')])
   \<and> load_properties (\<lambda>v. Inr (PObj IsOther None (Some v))) ''props.json''
        \<lparr>files = (\<lambda>f. if f = ''props.json''
        then Some [LBrace, StrLit ''backend_name'', Colon, StrLit ''ibmq'', RBrace]
        else None),
      writable = (\<lambda>f. True)\<rparr>
     = Inr (PObj IsOther None (Some (PDict [(KStr ''backend_name'', PStr ''ibmq'')])))
   \<and> load_properties (\<lambda>v. Inl (OtherError ''KeyError'')) ''props.json''
        \<lparr>files = (\<lambda>f. if f = ''props.json''
        then Some [LBrace, StrLit ''backend_name'', Colon, StrLit ''ibmq'', RBrace]
        else None),
      writable = (\<lambda>f. True)\<rparr>
     = Inl (OtherError ''KeyError'')
   \<and> files \<lparr>files = (\<lambda>f. if f = ''props.json''
        then Some [LBrace, StrLit ''backend_name'', Colon] else None),
      writable = (\<lambda>f. True)\<rparr> ''props.json''
     = Some [LBrace, StrLit ''backend_name'', Colon]
   \<and> json_load [LBrace, StrLit ''backend_name'', Colon] = Inl JSONDecodeError
   \<and> load_properties (\<lambda>v. Inr (PObj IsOther None (Some v))) ''props.json''
        \<lparr>files = (\<lambda>f. if f = ''props.json''
        then Some [LBrace, StrLit ''backend_name'', Colon] else None),
      writable = (\<lambda>f. True)\<rparr>
     = Inl JSONDecodeError
   \<and> files \<lparr>files = (\<lambda>f. None), writable = (\<lambda>f. True)\<rparr> ''props.json'' = None
   \<and> load_properties (\<lambda>v. Inr (PObj IsOther None (Some v))) ''props.json''
        \<lparr>files = (\<lambda>f. None), writable = (\<lambda>f. True)\<rparr>
     = Inl OSError"
  using load_properties_passes_through [of
      "\<lparr>files = (\<lambda>f. if f = ''props.json''
        then Some [LBrace, StrLit ''backend_name'', Colon, StrLit ''ibmq'', RBrace]
        else None),
      writable = (\<lambda>f. True)\<rparr>"
      "''props.json''"
      "[LBrace, StrLit ''backend_name'', Colon, StrLit ''ibmq'', RBrace]"
      "PDict [(KStr ''backend_name'', PStr ''ibmq'')]"
      "(\<lambda>v. Inr (PObj IsOther None (Some v)))"]
    load_properties_passes_through [of
      "\<lparr>files = (\<lambda>f. if f = ''props.json''
        then Some [LBrace, StrLit ''backend_name'', Colon, StrLit ''ibmq'', RBrace]
        else None),
      writable = (\<lambda>f. True)\<rparr>"
      "''props.json''"
      "[LBrace, StrLit ''backend_name'', Colon, StrLit ''ibmq'', RBrace]"
      "PDict [(KStr ''backend_name'', PStr ''ibmq'')]"
      "(\<lambda>v. Inl (OtherError ''KeyError''))"]
    load_properties_passes_through [of
      "\<lparr>files = (\<lambda>f. if f = ''props.json''
        then Some [LBrace, StrLit ''backend_name'', Colon] else None),
      writable = (\<lambda>f. True)\<rparr>"
      "''props.json''"
      "[LBrace, StrLit ''backend_name'', Colon]" _
      "(\<lambda>v. Inr (PObj IsOther None (Some v)))" JSONDecodeError]
    load_properties_passes_through [of
      "\<lparr>files = (\<lambda>f. None), writable = (\<lambda>f. True)\<rparr>"
      "''props.json''" _ _
      "(\<lambda>v. Inr (PObj IsOther None (Some v)))"]
  by (simp add: json_load_def)

text \<open>
  C9. When the file's text parses to the empty list, \<^verbatim>\<open>load_result\<close>
  returns the empty list, whatever the factory is: also with a factory that raises on
  every value, so the factory is not called.
\<close>

theorem load_result_empty_array:
  "files fs filename = Some text \<Longrightarrow> json_load text = Inr (PList []) \<Longrightarrow>
   load_result from_dict filename fs = Inr (PList [])"
  by (simp add: load_result_def open_r_Some)

theorem load_result_empty_array_witness:
  "files \<lparr>files = (\<lambda>f. if f = ''results.json'' then Some [LBracket, RBracket] else None),
      writable = (\<lambda>f. True)\<rparr> ''results.json''
     = Some [LBracket, RBracket]
   \<and> json_load [LBracket, RBracket] = Inr (PList [])
   \<and> load_result (\<lambda>v. Inl (OtherError ''KeyError'')) ''results.json''
        \<lparr>files = (\<lambda>f. if f = ''results.json'' then Some [LBracket, RBracket] else None),
      writable = (\<lambda>f. True)\<rparr>
     = Inr (PList [])"
  using load_result_empty_array [of
      "\<lparr>files = (\<lambda>f. if f = ''results.json'' then Some [LBracket, RBracket] else None),
      writable = (\<lambda>f. True)\<rparr>"
      "''results.json''" "[LBracket, RBracket]" "(\<lambda>v. Inl (OtherError ''KeyError''))"]
  by (simp add: json_load_def)

section \<open>Saving\<close>



text \<open>
  C7. When the object contains a value for which no branch of the encoder applies,
  \<^verbatim>\<open>save_to_json\<close> raises one of the serializer's two errors. The file is
  left holding what was written before the error, and that text is not a JSON document,
  nor is any part of it from its start: the parser rejects the text and each of its
  prefixes.
\<close>

theorem save_unsupported_leaves_no_json:
  "contains_unsupported obj \<Longrightarrow> writable fs filename \<Longrightarrow>
   (\<exists>e. fst (save_to_json obj filename fs) = Inl e \<and> encoding_error e)
   \<and> (\<exists>text. files (snd (save_to_json obj filename fs)) filename = Some text
         \<and> text = fst (iterencode obj)
         \<and> json_load text = Inl JSONDecodeError
         \<and> (\<forall>n. json_load (take n text) = Inl JSONDecodeError))"
proof -
  assume u: "contains_unsupported obj" and w: "writable fs filename"
  from unsupported_fails [OF u] obtain e where e: "snd (iterencode obj) = Some e"
    by (auto simp: fails_def)
  from ree_iterencode [of obj] e have "encoding_error e"
    by (simp add: raises_encoding_error_def)
  moreover have "json_load (fst (iterencode obj)) = Inl JSONDecodeError"
    using failed_not_json [OF e, of "length (fst (iterencode obj))"] by simp
  ultimately show ?thesis
    using e w failed_not_json [OF e] by (simp add: save_to_json_writable)
qed

theorem save_unsupported_leaves_no_json_witness:
  "contains_unsupported (PList [PInt 1, PObj IsOther None None])
   \<and> writable \<lparr>files = (\<lambda>f. None), writable = (\<lambda>f. True)\<rparr> ''out.json''
   \<and> fst (save_to_json (PList [PInt 1, PObj IsOther None None]) ''out.json''
          \<lparr>files = (\<lambda>f. None), writable = (\<lambda>f. True)\<rparr>)
     = Inl TypeError_not_serializable
   \<and> encoding_error TypeError_not_serializable
   \<and> files (snd (save_to_json (PList [PInt 1, PObj IsOther None None]) ''out.json''
          \<lparr>files = (\<lambda>f. None), writable = (\<lambda>f. True)\<rparr>)) ''out.json''
     = Some [LBracket, IntLit 1, Comma]
   \<and> json_load [LBracket, IntLit 1, Comma] = Inl JSONDecodeError
   \<and> json_load [LBracket, IntLit 1] = Inl JSONDecodeError
   \<and> json_load [LBracket] = Inl JSONDecodeError
   \<and> json_load [] = Inl JSONDecodeError"
  using save_unsupported_leaves_no_json [of "(PList [PInt 1, PObj IsOther None None])"
      "\<lparr>files = (\<lambda>f. None), writable = (\<lambda>f. True)\<rparr>" "''out.json''"]
  by (auto simp add: save_to_json_writable QiskitEncoder_default_def JSONEncoder_default_def
        iterencode_list_def yield_def raise_def encoding_error_def json_load_def)

section \<open>Saving, then loading\<close>



end
